theory Spec2Isabelle
  imports Complex_Main "HOL-Library.Multiset"
begin

section \<open>JavaScript values\<close>

text \<open>
  A JavaScript number is an IEEE double: a finite value, one of the two infinities, or
  NaN. A finite double is an exact rational, so the finite case carries the value as a
  \<open>real\<close>; ordering two finite numbers is then exactly the ordering the program
  computes. The sign of zero is not tracked. The rounding of the arithmetic operators
  is defined below (\<open>fl\<close>); it is applied where the program's numbers are looked at
  as values (the rounding of prices and the summary statistics). The trend line and the
  colour positions are given with the exact operators: what is proved of them concerns
  the formulas, the end points and the division by zero.
\<close>

datatype num = Fin real | PosInf | NegInf | NaN

text \<open>
  The values \<open>JSON.parse\<close> can produce (and \<open>undefined\<close>). An object is the
  list of its own properties in insertion order, with distinct keys.
\<close>

datatype jsval =
    JUndefined
  | JNull
  | JBool bool
  | JNum num
  | JStr string
  | JArr "jsval list"
  | JObj "(string \<times> jsval) list"

text \<open>ToBoolean: what \<open>!v\<close> and \<open>v && ...\<close> test.\<close>

fun num_truthy :: "num \<Rightarrow> bool" where
  "num_truthy (Fin x) = (x \<noteq> 0)"
| "num_truthy PosInf = True"
| "num_truthy NegInf = True"
| "num_truthy NaN = False"

fun truthy :: "jsval \<Rightarrow> bool" where
  "truthy JUndefined = False"
| "truthy JNull = False"
| "truthy (JBool b) = b"
| "truthy (JNum n) = num_truthy n"
| "truthy (JStr s) = (s \<noteq> [])"
| "truthy (JArr xs) = True"
| "truthy (JObj kvs) = True"

text \<open>\<open>typeof v === 'object'\<close>: true of objects, arrays and \<open>null\<close>.\<close>

fun typeof_object :: "jsval \<Rightarrow> bool" where
  "typeof_object JNull = True"
| "typeof_object (JArr xs) = True"
| "typeof_object (JObj kvs) = True"
| "typeof_object v = False"

text \<open>
  \<open>field in record\<close> and \<open>record[field]\<close>, for the field names the program uses
  (\<open>user_name\<close>, \<open>power_company\<close>, \<open>bid_date\<close>, \<open>bid_price\<close>, \<open>data\<close>):
  none of them is an array index, \<open>length\<close> or a property of a prototype, so only an
  object's own properties can hold them.
\<close>

fun js_in :: "string \<Rightarrow> jsval \<Rightarrow> bool" where
  "js_in field (JObj kvs) = (map_of kvs field \<noteq> None)"
| "js_in field v = False"

fun js_get :: "string \<Rightarrow> jsval \<Rightarrow> jsval" where
  "js_get field (JObj kvs) = (case map_of kvs field of Some v \<Rightarrow> v | None \<Rightarrow> JUndefined)"
| "js_get field v = JUndefined"

text \<open>
  A string is the sequence of the bytes of its UTF-8 encoding (a JavaScript string that
  holds no unpaired surrogate). The white space of ECMAScript, which
  \<open>String.prototype.trim\<close> strips and \<open>\s\<close> matches, is the characters
  U+0009 to U+000D, U+0020, U+00A0, U+1680, U+2000 to U+200A, U+2028, U+2029, U+202F,
  U+205F, U+3000 and U+FEFF; \<open>ws_codes\<close> lists their encodings.
\<close>

definition ws_codes :: "string list" where
  "ws_codes =
     [[CHR 0x09], [CHR 0x0A], [CHR 0x0B], [CHR 0x0C], [CHR 0x0D], [CHR 0x20],
      [CHR 0xC2, CHR 0xA0],
      [CHR 0xE1, CHR 0x9A, CHR 0x80],
      [CHR 0xE2, CHR 0x80, CHR 0x80], [CHR 0xE2, CHR 0x80, CHR 0x81],
      [CHR 0xE2, CHR 0x80, CHR 0x82], [CHR 0xE2, CHR 0x80, CHR 0x83],
      [CHR 0xE2, CHR 0x80, CHR 0x84], [CHR 0xE2, CHR 0x80, CHR 0x85],
      [CHR 0xE2, CHR 0x80, CHR 0x86], [CHR 0xE2, CHR 0x80, CHR 0x87],
      [CHR 0xE2, CHR 0x80, CHR 0x88], [CHR 0xE2, CHR 0x80, CHR 0x89],
      [CHR 0xE2, CHR 0x80, CHR 0x8A],
      [CHR 0xE2, CHR 0x80, CHR 0xA8], [CHR 0xE2, CHR 0x80, CHR 0xA9],
      [CHR 0xE2, CHR 0x80, CHR 0xAF],
      [CHR 0xE2, CHR 0x81, CHR 0x9F],
      [CHR 0xE3, CHR 0x80, CHR 0x80],
      [CHR 0xEF, CHR 0xBB, CHR 0xBF]]"

fun starts_with :: "string \<Rightarrow> string \<Rightarrow> bool" where
  "starts_with s [] = True"
| "starts_with [] (p # ps) = False"
| "starts_with (c # cs) (p # ps) = (c = p \<and> starts_with cs ps)"

text \<open>
  The number of bytes of the code, among \<open>codes\<close>, that the string starts with;
  0 when it starts with none.
\<close>

definition code_at :: "string list \<Rightarrow> string \<Rightarrow> nat" where
  "code_at codes s = (case find (starts_with s) codes of None \<Rightarrow> 0 | Some w \<Rightarrow> length w)"

text \<open>
  The string without the codes it starts with; \<open>k\<close> is the number of bytes still to
  be dropped of the code being skipped.
\<close>

fun skip_codes :: "string list \<Rightarrow> nat \<Rightarrow> string \<Rightarrow> string" where
  "skip_codes codes k [] = []"
| "skip_codes codes (Suc k) (c # cs) = skip_codes codes k cs"
| "skip_codes codes 0 (c # cs) =
     (if code_at codes (c # cs) = 0 then c # cs
      else skip_codes codes (code_at codes (c # cs) - 1) cs)"

text \<open>
  \<open>trim\<close> strips the white space at both ends; at the end, the reversed string is
  stripped of the reversed encodings.
\<close>

definition trim :: "string \<Rightarrow> string" where
  "trim s = rev (skip_codes (map rev ws_codes) 0 (rev (skip_codes ws_codes 0 s)))"

text \<open>
  The functions of the JavaScript runtime that the program calls and that are not part of
  the repository. \<open>parseFloat\<close> is the global function; \<open>dateTime v\<close> is the time
  value of \<open>new Date(v)\<close> in milliseconds since the epoch, \<open>None\<close> for an invalid
  date (whose time value is NaN); \<open>date_getMonth v\<close> and \<open>date_getFullYear v\<close> are the
  results of \<open>getMonth()\<close> and \<open>getFullYear()\<close> on \<open>new Date(v)\<close> (local
  time, NaN for an invalid date);
  \<open>toLocaleDateString v\<close> is that method on \<open>new Date(v)\<close> with the locale and
  the options the program passes; \<open>toFixed3 x\<close> is \<open>x.toFixed(3)\<close>; \<open>showNum\<close>,
  \<open>showDate\<close> and \<open>showVal\<close> are the conversion to a string of a number, of a
  \<open>Date\<close> object given by its time value, and of any other value;
  \<open>stringify\<close> is \<open>JSON.stringify(..., null, 2)\<close> on an array of objects, each
  given by its properties (a property holds a value or a \<open>Date\<close> object).
\<close>

datatype prop_val = Val jsval | DateObj int

record host =
  parseFloat :: "jsval \<Rightarrow> num"
  dateTime :: "jsval \<Rightarrow> int option"
  date_getMonth :: "jsval \<Rightarrow> num"
  date_getFullYear :: "jsval \<Rightarrow> num"
  toLocaleDateString :: "jsval \<Rightarrow> string"
  toFixed3 :: "real \<Rightarrow> string"
  showNum :: "num \<Rightarrow> string"
  showDate :: "int \<Rightarrow> string"
  showVal :: "jsval \<Rightarrow> string"
  stringify :: "(string \<times> prop_val) list list \<Rightarrow> string"

section \<open>Errors\<close>

text \<open>
  Every failure of the program is \<open>throw new Error(message)\<close>; the constructors below
  name the distinct messages after the error taxonomy of the specification and carry what
  the message interpolates.
\<close>

datatype error =
    EmptyDatasetError
  | MalformedDatasetError
  | InvalidRecordError
  | MissingFieldError string
  | InvalidStringError string
  | InvalidNumberError string
  | InvalidDateError string
  | PriceOutOfRangeError real
  | DateOutOfRangeError jsval
  | DataQualityError nat nat
  | NoValidRecordsError
  | ConcurrentLoadError
  | RetrievalError nat
  | FetchRejectedError
  | JsonSyntaxError
  | NoExportDataError
  | UnsupportedFormatError string
  | TypeError

section \<open>Record validation (DataHandler.validateRecord)\<close>

record vrec =
  user_name :: string
  power_company :: string
  bid_date :: jsval
  bid_date_parsed :: int
  bid_price :: real

text \<open>The time value of \<open>new Date('2020-01-01')\<close>: midnight UTC, in milliseconds.\<close>

definition minDate :: int where
  "minDate = 1577836800000"

text \<open>
  The three cases of the \<open>switch\<close> on the expected type of a field. Each returns the
  value stored into the validated record, or the error thrown.
\<close>

definition validateString :: "string \<Rightarrow> jsval \<Rightarrow> error + string" where
  "validateString field value =
     (case value of
        JStr s \<Rightarrow> if trim s = [] then Inl (InvalidStringError field) else Inr (trim s)
      | _ \<Rightarrow> Inl (InvalidStringError field))"

definition validateNumber :: "host \<Rightarrow> string \<Rightarrow> jsval \<Rightarrow> error + real" where
  "validateNumber H field value =
     (case parseFloat H value of
        Fin numValue \<Rightarrow>
          if field = ''bid_price'' \<and> (numValue < 0.1 \<or> numValue > 2.0)
          then Inl (PriceOutOfRangeError numValue)
          else Inr numValue
      | _ \<Rightarrow> Inl (InvalidNumberError field))"

definition validateDate :: "host \<Rightarrow> int \<Rightarrow> string \<Rightarrow> jsval \<Rightarrow> error + int" where
  "validateDate H now field value =
     (case dateTime H value of
        None \<Rightarrow> Inl (InvalidDateError field)
      | Some dateValue \<Rightarrow>
          if dateValue > now \<or> dateValue < minDate
          then Inl (DateOutOfRangeError value)
          else Inr dateValue)"

text \<open>
  One turn of the loop over the required fields: the presence check, then the case of the
  field's type applied to \<open>record[field]\<close>.
\<close>

definition checked :: "string \<Rightarrow> jsval \<Rightarrow> (string \<Rightarrow> jsval \<Rightarrow> error + 'a) \<Rightarrow> error + 'a" where
  "checked field record validate =
     (if \<not> js_in field record then Inl (MissingFieldError field)
      else validate field (js_get field record))"

text \<open>
  \<open>validateRecord(record, index)\<close>. The loop runs over the constant list
  \<open>['user_name', 'power_company', 'bid_date', 'bid_price']\<close>, whose types are string,
  string, date and number; it is written out in that order. \<open>now\<close> is the time value
  of the \<open>new Date()\<close> taken in the date case. The \<open>index\<close> argument is not used by
  the function.
\<close>

definition validateRecord :: "host \<Rightarrow> int \<Rightarrow> jsval \<Rightarrow> error + vrec" where
  "validateRecord H now record =
     (if \<not> truthy record \<or> \<not> typeof_object record then Inl InvalidRecordError
      else
        case checked ''user_name'' record validateString of
          Inl e \<Rightarrow> Inl e
        | Inr un \<Rightarrow>
        (case checked ''power_company'' record validateString of
          Inl e \<Rightarrow> Inl e
        | Inr pc \<Rightarrow>
        (case checked ''bid_date'' record (validateDate H now) of
          Inl e \<Rightarrow> Inl e
        | Inr t \<Rightarrow>
        (case checked ''bid_price'' record (validateNumber H) of
          Inl e \<Rightarrow> Inl e
        | Inr p \<Rightarrow>
            Inr \<lparr>user_name = un, power_company = pc,
                 bid_date = js_get ''bid_date'' record, bid_date_parsed = t,
                 bid_price = p\<rparr>))))"

section \<open>Dataset validation (DataHandler.validateDataStructure)\<close>

text \<open>
  The shape resolution: the value itself when it is an array, else its \<open>data\<close>
  property when that is an array.
\<close>

definition resolve :: "jsval \<Rightarrow> jsval list option" where
  "resolve jsonData =
     (case jsonData of
        JArr xs \<Rightarrow> Some xs
      | _ \<Rightarrow>
        (case js_get ''data'' jsonData of
           JArr xs \<Rightarrow> Some xs
         | _ \<Rightarrow> None))"

text \<open>
  The body of the \<open>forEach\<close>: the state is the pair of the two arrays being
  filled, \<open>validatedData\<close> and \<open>errors\<close>; an entry of \<open>errors\<close> is the
  1-based position of the record and its error. \<open>clock i\<close> is the time at which the
  record of index \<open>i\<close> is validated.
\<close>

definition validateStep ::
  "host \<Rightarrow> (nat \<Rightarrow> int) \<Rightarrow> vrec list \<times> (nat \<times> error) list \<Rightarrow> nat \<times> jsval
     \<Rightarrow> vrec list \<times> (nat \<times> error) list" where
  "validateStep H clock acc p =
     (case validateRecord H (clock (fst p)) (snd p) of
        Inr validatedItem \<Rightarrow> (fst acc @ [validatedItem], snd acc)
      | Inl e \<Rightarrow> (fst acc, snd acc @ [(fst p + 1, e)]))"

definition validateEach ::
  "host \<Rightarrow> (nat \<Rightarrow> int) \<Rightarrow> jsval list \<Rightarrow> vrec list \<times> (nat \<times> error) list" where
  "validateEach H clock dataArray = foldl (validateStep H clock) ([], []) (enumerate 0 dataArray)"

text \<open>
  \<open>validateDataStructure(jsonData)\<close>. The first component of the result is what was
  written with \<open>console.warn\<close> (one entry per call, holding the \<open>errors\<close> array);
  the second is the error thrown or the array returned.
\<close>

definition validateDataStructure ::
  "host \<Rightarrow> (nat \<Rightarrow> int) \<Rightarrow> jsval \<Rightarrow> (nat \<times> error) list list \<times> (error + vrec list)" where
  "validateDataStructure H clock jsonData =
     (if \<not> truthy jsonData then ([], Inl EmptyDatasetError)
      else
        case resolve jsonData of
          None \<Rightarrow> ([], Inl MalformedDatasetError)
        | Some dataArray \<Rightarrow>
            if length dataArray = 0 then ([], Inl EmptyDatasetError)
            else
              let validatedData = fst (validateEach H clock dataArray);
                  errors = snd (validateEach H clock dataArray);
                  warned = (if length errors > 0 then [errors] else [])
              in
                if length errors > 0 \<and> real (length errors) / real (length dataArray) > 0.2
                then (warned, Inl (DataQualityError (length errors) (length dataArray)))
                else if length validatedData = 0 then (warned, Inl NoValidRecordsError)
                else (warned, Inr validatedData))"

section \<open>Arithmetic and ordering on numbers\<close>

text \<open>
  The operators of the program on numbers, with the special values of IEEE arithmetic:
  NaN is contagious, a non-zero finite number divided by zero is an infinity, and zero
  divided by zero is NaN. \<open>inf_of_sign\<close> is the infinity of a sign, NaN for sign 0.
\<close>

definition inf_of_sign :: "real \<Rightarrow> num" where
  "inf_of_sign s = (if s > 0 then PosInf else if s < 0 then NegInf else NaN)"

fun num_sgn :: "num \<Rightarrow> real" where
  "num_sgn (Fin x) = sgn x"
| "num_sgn PosInf = 1"
| "num_sgn NegInf = - 1"
| "num_sgn NaN = 0"

fun num_add :: "num \<Rightarrow> num \<Rightarrow> num" where
  "num_add (Fin a) (Fin b) = Fin (a + b)"
| "num_add NaN b = NaN"
| "num_add a NaN = NaN"
| "num_add PosInf NegInf = NaN"
| "num_add NegInf PosInf = NaN"
| "num_add PosInf b = PosInf"
| "num_add NegInf b = NegInf"
| "num_add a PosInf = PosInf"
| "num_add a NegInf = NegInf"

fun num_neg :: "num \<Rightarrow> num" where
  "num_neg (Fin a) = Fin (- a)"
| "num_neg PosInf = NegInf"
| "num_neg NegInf = PosInf"
| "num_neg NaN = NaN"

definition num_sub :: "num \<Rightarrow> num \<Rightarrow> num" where
  "num_sub a b = num_add a (num_neg b)"

fun num_mul :: "num \<Rightarrow> num \<Rightarrow> num" where
  "num_mul (Fin a) (Fin b) = Fin (a * b)"
| "num_mul NaN b = NaN"
| "num_mul a NaN = NaN"
| "num_mul a b = inf_of_sign (num_sgn a * num_sgn b)"

fun num_div :: "num \<Rightarrow> num \<Rightarrow> num" where
  "num_div (Fin a) (Fin b) = (if b \<noteq> 0 then Fin (a / b) else inf_of_sign (sgn a))"
| "num_div NaN b = NaN"
| "num_div a NaN = NaN"
| "num_div (Fin a) b = Fin 0"
| "num_div a (Fin b) = inf_of_sign (num_sgn a * (if b < 0 then - 1 else 1))"
| "num_div a b = NaN"

fun num_ceil :: "num \<Rightarrow> num" where
  "num_ceil (Fin a) = Fin (of_int \<lceil>a\<rceil>)"
| "num_ceil a = a"

text \<open>\<open>a < b\<close> and \<open>a > b\<close> on numbers: false as soon as one side is NaN.\<close>

fun num_lt :: "num \<Rightarrow> num \<Rightarrow> bool" where
  "num_lt NaN b = False"
| "num_lt a NaN = False"
| "num_lt (Fin a) (Fin b) = (a < b)"
| "num_lt a NegInf = False"
| "num_lt PosInf b = False"
| "num_lt a PosInf = True"
| "num_lt NegInf b = True"

definition num_gt :: "num \<Rightarrow> num \<Rightarrow> bool" where
  "num_gt a b = num_lt b a"

text \<open>
  The difference and the ordering of two \<open>Date\<close> objects, given by their time values:
  both convert the dates to numbers, NaN for an invalid date.
\<close>

definition time_num :: "int option \<Rightarrow> num" where
  "time_num t = (case t of None \<Rightarrow> NaN | Some v \<Rightarrow> Fin (of_int v))"

definition date_sub :: "int option \<Rightarrow> int option \<Rightarrow> num" where
  "date_sub a b = num_sub (time_num a) (time_num b)"

definition date_lt :: "int option \<Rightarrow> int option \<Rightarrow> bool" where
  "date_lt a b = num_lt (time_num a) (time_num b)"

definition date_gt :: "int option \<Rightarrow> int option \<Rightarrow> bool" where
  "date_gt a b = num_lt (time_num b) (time_num a)"

text \<open>
  The rounding of IEEE double arithmetic: the result of an operator is the exact result
  rounded to the nearest double, a tie going to the double with an even significand.
  \<open>expo x\<close> is the exponent of a positive \<open>x\<close> (\<open>2 ^ expo x \<le> x < 2 ^ (expo x + 1)\<close>),
  \<open>pow2 k\<close> is \<open>2\<close> to the power \<open>k\<close>; a double has a significand of 53 bits
  and an exponent of at least -1022, below which the spacing stays \<open>pow2 (- 1074)\<close>.
  A rounded result of magnitude \<open>pow2 1024\<close> or more is an infinity.
\<close>

definition ties_even :: "real \<Rightarrow> int" where
  "ties_even x =
     (let f = \<lfloor>x\<rfloor>; r = x - of_int f
      in if r < 1 / 2 then f else if 1 / 2 < r then f + 1 else if even f then f else f + 1)"

function expo :: "real \<Rightarrow> int" where
  "expo x =
     (if x \<le> 0 then 0
      else if 2 \<le> x then expo (x / 2) + 1
      else if x < 1 then expo (x * 2) - 1
      else 0)"
  by pat_completeness auto
termination
proof (relation "measure (\<lambda>x. nat (2 * \<lceil>1 / x\<rceil> + \<lceil>x\<rceil>))")
  show "wf (measure (\<lambda>x. nat (2 * \<lceil>1 / x\<rceil> + \<lceil>x\<rceil>)))" by simp
next
  fix x :: real
  assume "\<not> x \<le> 0" "2 \<le> x"
  then have a: "\<lceil>1 / (x / 2)\<rceil> = 1" "\<lceil>1 / x\<rceil> = 1"
    by (simp_all add: ceiling_eq_iff field_simps)
  have "x / 2 \<le> x - 1" using \<open>2 \<le> x\<close> by simp
  then have "\<lceil>x / 2\<rceil> \<le> \<lceil>x - 1\<rceil>" by (rule ceiling_mono)
  also have "\<dots> = \<lceil>x\<rceil> - 1" by (rule ceiling_diff_one)
  finally have b: "\<lceil>x / 2\<rceil> < \<lceil>x\<rceil>" by linarith
  have "0 < \<lceil>x / 2\<rceil>" "0 < \<lceil>x\<rceil>" using \<open>2 \<le> x\<close> by simp_all
  with a b show "(x / 2, x) \<in> measure (\<lambda>x. nat (2 * \<lceil>1 / x\<rceil> + \<lceil>x\<rceil>))"
    unfolding in_measure by linarith
next
  fix x :: real
  assume x: "\<not> x \<le> 0" "\<not> 2 \<le> x" "x < 1"
  then have cx: "\<lceil>x\<rceil> = 1" by (simp add: ceiling_eq_iff)
  have "0 < x * 2" "x * 2 \<le> 2" using x by simp_all
  then have c2: "\<lceil>x * 2\<rceil> \<le> 2" "0 < \<lceil>x * 2\<rceil>" by (simp_all add: ceiling_le_iff)
  have y: "1 < 1 / x" using x by simp
  have "\<lceil>1 / (x * 2)\<rceil> \<le> \<lceil>1 / x\<rceil> - 1"
  proof (cases "1 / x \<le> 2")
    case True
    then have "1 / (x * 2) \<le> 1" using x by (simp add: field_simps)
    then have "\<lceil>1 / (x * 2)\<rceil> \<le> 1" by (simp add: ceiling_le_iff)
    moreover have "2 \<le> \<lceil>1 / x\<rceil>" using y by linarith
    ultimately show ?thesis by linarith
  next
    case False
    then have "1 / (x * 2) \<le> 1 / x - 1" using x by (simp add: field_simps)
    then have "\<lceil>1 / (x * 2)\<rceil> \<le> \<lceil>1 / x - 1\<rceil>" by (rule ceiling_mono)
    also have "\<dots> = \<lceil>1 / x\<rceil> - 1" by (rule ceiling_diff_one)
    finally show ?thesis .
  qed
  moreover have "0 < \<lceil>1 / (x * 2)\<rceil>" using x by simp
  ultimately show "(x * 2, x) \<in> measure (\<lambda>x. nat (2 * \<lceil>1 / x\<rceil> + \<lceil>x\<rceil>))"
    using cx c2 unfolding in_measure by linarith
qed

declare expo.simps [simp del]

definition pow2 :: "int \<Rightarrow> real" where
  "pow2 k = (if 0 \<le> k then 2 ^ nat k else 1 / 2 ^ nat (- k))"

definition fl :: "real \<Rightarrow> real" where
  "fl x =
     (if x = 0 then 0
      else let u = pow2 (max (expo \<bar>x\<bar>) (- 1022) - 52)
           in of_int (ties_even (x / u)) * u)"

definition dbl :: "real \<Rightarrow> num" where
  "dbl x = (if pow2 1024 \<le> \<bar>fl x\<bar> then inf_of_sign x else Fin (fl x))"

text \<open>
  The operators \<open>+\<close> and \<open>/\<close> of the program with their rounding: on two finite
  numbers (a non-zero divisor) the exact result is rounded; the other cases are the
  special values above.
\<close>

definition js_add :: "num \<Rightarrow> num \<Rightarrow> num" where
  "js_add a b = (case (a, b) of (Fin x, Fin y) \<Rightarrow> dbl (x + y) | _ \<Rightarrow> num_add a b)"

definition js_div :: "num \<Rightarrow> num \<Rightarrow> num" where
  "js_div a b =
     (case (a, b) of
        (Fin x, Fin y) \<Rightarrow> if y \<noteq> 0 then dbl (x / y) else num_div a b
      | _ \<Rightarrow> num_div a b)"

section \<open>Array.prototype.sort\<close>

text \<open>
  \<open>sort\<close> with a comparator is stable, and a comparator result of NaN counts as 0.
  For a consistent comparator the result is the one of a stable insertion sort, which is
  what \<open>js_sort\<close> computes: \<open>x\<close> goes before the first \<open>y\<close> with
  \<open>cmp x y \<le> 0\<close>. (For an inconsistent comparator the order is left to the
  implementation.)
\<close>

fun cmp_le0 :: "num \<Rightarrow> bool" where
  "cmp_le0 (Fin v) = (v \<le> 0)"
| "cmp_le0 PosInf = False"
| "cmp_le0 NegInf = True"
| "cmp_le0 NaN = True"

fun js_insert :: "('a \<Rightarrow> 'a \<Rightarrow> num) \<Rightarrow> 'a \<Rightarrow> 'a list \<Rightarrow> 'a list" where
  "js_insert cmp x [] = [x]"
| "js_insert cmp x (y # ys) = (if cmp_le0 (cmp x y) then x # y # ys else y # js_insert cmp x ys)"

fun js_sort :: "('a \<Rightarrow> 'a \<Rightarrow> num) \<Rightarrow> 'a list \<Rightarrow> 'a list" where
  "js_sort cmp [] = []"
| "js_sort cmp (x # xs) = js_insert cmp x (js_sort cmp xs)"

section \<open>Processing pipeline (DataHandler.processData)\<close>

record prec = vrec +
  rec_id :: nat
  bid_date_formatted :: string
  bid_price_formatted :: string
  quarter :: string
  month :: num
  year :: num

text \<open>
  Arrays are objects with identity: \<open>sort\<close> reorders the array it is called on and
  returns that same array, while \<open>map\<close> and a spread copy build a new one. The
  store holds the arrays by address (the position in the list); an address handed to a
  function always denotes an allocated array. Arrays of validated or cleaned records and
  arrays of enriched records are kept apart. The record objects themselves are never
  written to after their creation, so they are values.
\<close>

record store =
  varrays :: "vrec list list"
  parrays :: "prec list list"

definition allocV :: "'s store_scheme \<Rightarrow> vrec list \<Rightarrow> 's store_scheme \<times> nat" where
  "allocV s xs = (s\<lparr>varrays := varrays s @ [xs]\<rparr>, length (varrays s))"

definition allocP :: "'s store_scheme \<Rightarrow> prec list \<Rightarrow> 's store_scheme \<times> nat" where
  "allocP s xs = (s\<lparr>parrays := parrays s @ [xs]\<rparr>, length (parrays s))"

text \<open>The comparator of \<open>sortByDate\<close>: it parses \<open>bid_date\<close> of both records anew.\<close>

definition byDate :: "host \<Rightarrow> bool \<Rightarrow> 'r vrec_scheme \<Rightarrow> 'r vrec_scheme \<Rightarrow> num" where
  "byDate H ascending a b =
     (let dateA = dateTime H (bid_date a); dateB = dateTime H (bid_date b)
      in if ascending then date_sub dateA dateB else date_sub dateB dateA)"

text \<open>
  \<open>sortByDate(data, ascending)\<close> is \<open>return data.sort(...)\<close>: the array at
  \<open>data\<close> is overwritten by its sorted contents and \<open>data\<close> itself is returned.
\<close>

definition sortByDate :: "host \<Rightarrow> 's store_scheme \<Rightarrow> nat \<Rightarrow> bool \<Rightarrow> 's store_scheme \<times> nat" where
  "sortByDate H s data ascending =
     (s\<lparr>varrays := (varrays s)[data := js_sort (byDate H ascending) (varrays s ! data)]\<rparr>, data)"

text \<open>\<open>str.replace(/\s+/g, ' ').trim()\<close>: each run of white space becomes one
  space (\<open>inRun\<close>: the previous character was white space; \<open>k\<close>: the bytes
  still to be dropped of the white-space character being read).\<close>

fun collapse :: "bool \<Rightarrow> nat \<Rightarrow> string \<Rightarrow> string" where
  "collapse inRun k [] = []"
| "collapse inRun (Suc k) (c # cs) = collapse inRun k cs"
| "collapse inRun 0 (c # cs) =
     (if code_at ws_codes (c # cs) = 0 then c # collapse False 0 cs
      else (if inRun then [] else [CHR '' ''])
           @ collapse True (code_at ws_codes (c # cs) - 1) cs)"

definition cleanString :: "string \<Rightarrow> string" where
  "cleanString str = trim (collapse False 0 str)"

text \<open>
  \<open>Math.round(price * 1000) / 1000\<close>: the product is rounded to a double,
  \<open>Math.round\<close> takes the nearest integer (a half going upwards), and the quotient is
  rounded to a double. (The price of a validated record lies between 0.1 and 2.0; no
  operation overflows on a price of magnitude below \<open>pow2 1000\<close>.)
\<close>

definition roundPrice :: "real \<Rightarrow> real" where
  "roundPrice price = fl (of_int \<lfloor>fl (price * 1000) + 1 / 2\<rfloor> / 1000)"

definition cleanItem :: "vrec \<Rightarrow> vrec" where
  "cleanItem item =
     item\<lparr>user_name := cleanString (user_name item),
          power_company := cleanString (power_company item),
          bid_price := roundPrice (bid_price item)\<rparr>"

definition cleanData :: "'s store_scheme \<Rightarrow> nat \<Rightarrow> 's store_scheme \<times> nat" where
  "cleanData s data = allocV s (map cleanItem (varrays s ! data))"

definition formatDate :: "host \<Rightarrow> jsval \<Rightarrow> string" where
  "formatDate H dateStr = toLocaleDateString H dateStr"

definition getMonth :: "host \<Rightarrow> jsval \<Rightarrow> num" where
  "getMonth H dateStr = num_add (date_getMonth H dateStr) (Fin 1)"

definition getQuarter :: "host \<Rightarrow> jsval \<Rightarrow> string" where
  "getQuarter H dateStr =
     (let m = num_add (date_getMonth H dateStr) (Fin 1)
      in ''Q'' @ showNum H (num_ceil (num_div m (Fin 3))))"

definition getYear :: "host \<Rightarrow> jsval \<Rightarrow> num" where
  "getYear H dateStr = date_getFullYear H dateStr"

text \<open>The unit label appended to the formatted price: a space, the three bytes of the
  currency character in UTF-8, and \<open>/kWh\<close>.\<close>

definition unitLabel :: string where
  "unitLabel = [CHR '' '', CHR 0xE5, CHR 0x85, CHR 0x83] @ ''/kWh''"

definition enrichItem :: "host \<Rightarrow> nat \<Rightarrow> vrec \<Rightarrow> prec" where
  "enrichItem H index item =
     vrec.extend item
       (prec.fields (index + 1)
          (formatDate H (bid_date item))
          (toFixed3 H (bid_price item) @ unitLabel)
          (getQuarter H (bid_date item))
          (getMonth H (bid_date item))
          (getYear H (bid_date item)))"

definition enrichData :: "host \<Rightarrow> 's store_scheme \<Rightarrow> nat \<Rightarrow> 's store_scheme \<times> nat" where
  "enrichData H s data =
     allocP s (map (\<lambda>p. enrichItem H (fst p) (snd p)) (enumerate 0 (varrays s ! data)))"

text \<open>
  \<open>processData(data)\<close>. No statement of its \<open>try\<close> block can throw on an array of
  validated records, so the \<open>catch\<close> is not reached and the function always returns.
\<close>

definition processData :: "host \<Rightarrow> 's store_scheme \<Rightarrow> nat \<Rightarrow> 's store_scheme \<times> nat" where
  "processData H s data =
     (let (s1, sortedData) = sortByDate H s data True;
          (s2, cleanedData) = cleanData s1 sortedData;
          (s3, enrichedData) = enrichData H s2 cleanedData
      in (s3, enrichedData))"

section \<open>Loading (DataHandler.loadData)\<close>

text \<open>
  The fields of a \<open>DataHandler\<close>, together with the arrays it refers to.
  \<open>dataCache\<close> is a \<open>Map\<close> from source to the address of a processed array;
  \<open>events\<close> collects what \<open>showLoadingState\<close> and \<open>showError\<close> dispatch.
\<close>

datatype event = LoadingStateChanged bool | DataError error

record handler = store +
  rawData :: "nat option"
  processedData :: "nat option"
  dataCache :: "(string \<times> nat) list"
  isLoading :: bool
  events :: "event list"

definition cache_set :: "string \<Rightarrow> nat \<Rightarrow> (string \<times> nat) list \<Rightarrow> (string \<times> nat) list" where
  "cache_set k v c = (if map_of c k = None then c @ [(k, v)] else map (\<lambda>p. if fst p = k then (k, v) else p) c)"

text \<open>
  \<open>loadData\<close> is an \<open>async\<close> function with two \<open>await\<close>s. A call runs until
  the first \<open>await\<close> (or until it returns or throws before it); it then resumes when
  \<open>fetch\<close> settles, and again when \<open>response.json()\<close> settles. Between these
  three parts other calls may run. A part ends by returning, by throwing, or suspended at
  an \<open>await\<close>.
\<close>

datatype task = AwaitFetch string bool | AwaitJson string bool

datatype outcome = Returned nat | Threw error | Suspended task

datatype fetched = FetchRejected | Response bool nat

text \<open>The \<open>finally\<close> block, and the \<open>catch\<close> block followed by it.\<close>

definition run_finally :: "handler \<Rightarrow> handler" where
  "run_finally h = h\<lparr>isLoading := False, events := events h @ [LoadingStateChanged False]\<rparr>"

definition caught :: "error \<Rightarrow> handler \<Rightarrow> handler \<times> outcome" where
  "caught e h = (run_finally (h\<lparr>events := events h @ [DataError e]\<rparr>), Threw e)"

text \<open>The call, up to \<open>await fetch(...)\<close>.\<close>

definition loadData_call :: "handler \<Rightarrow> string \<Rightarrow> bool \<Rightarrow> handler \<times> outcome" where
  "loadData_call h dataUrl useCache =
     (case (if useCache then map_of (dataCache h) dataUrl else None) of
        Some cachedData \<Rightarrow> (run_finally h, Returned cachedData)
      | None \<Rightarrow>
          if isLoading h then caught ConcurrentLoadError h
          else (h\<lparr>isLoading := True, events := events h @ [LoadingStateChanged True]\<rparr>,
                Suspended (AwaitFetch dataUrl useCache)))"

text \<open>From the settling of \<open>fetch\<close> to \<open>await response.json()\<close>.\<close>

definition loadData_fetched :: "handler \<Rightarrow> string \<Rightarrow> bool \<Rightarrow> fetched \<Rightarrow> handler \<times> outcome" where
  "loadData_fetched h dataUrl useCache r =
     (case r of
        FetchRejected \<Rightarrow> caught FetchRejectedError h
      | Response ok status \<Rightarrow>
          if \<not> ok then caught (RetrievalError status) h
          else (h, Suspended (AwaitJson dataUrl useCache)))"

text \<open>From the settling of \<open>response.json()\<close> (\<open>None\<close>: it rejected) to the end.\<close>

definition loadData_decoded ::
  "host \<Rightarrow> (nat \<Rightarrow> int) \<Rightarrow> handler \<Rightarrow> string \<Rightarrow> bool \<Rightarrow> jsval option \<Rightarrow> handler \<times> outcome" where
  "loadData_decoded H clock h dataUrl useCache body =
     (case body of
        None \<Rightarrow> caught JsonSyntaxError h
      | Some jsonData \<Rightarrow>
        (case snd (validateDataStructure H clock jsonData) of
           Inl e \<Rightarrow> caught e h
         | Inr validated \<Rightarrow>
             let (h1, validatedData) = allocV h validated;
                 (h2, processed) = processData H h1 validatedData;
                 h3 = (if useCache then h2\<lparr>dataCache := cache_set dataUrl processed (dataCache h2)\<rparr>
                       else h2);
                 h4 = h3\<lparr>rawData := Some validatedData, processedData := Some processed\<rparr>
             in (run_finally h4, Returned processed)))"

text \<open>
  The handler and the calls suspended at an \<open>await\<close>, in the order they were made.
  An action is a new call of \<open>loadData\<close>, or the settling of the \<open>await\<close> of the
  suspended call at a position.
\<close>

record sys =
  the_handler :: handler
  pending :: "task list"

datatype action =
    Call string bool
  | FetchSettles nat fetched
  | DecodeSettles nat "jsval option"

definition settle :: "sys \<Rightarrow> nat \<Rightarrow> handler \<times> outcome \<Rightarrow> sys \<times> outcome option" where
  "settle S i r =
     (case snd r of
        Suspended t \<Rightarrow> (\<lparr>the_handler = fst r, pending = (pending S)[i := t]\<rparr>, None)
      | out \<Rightarrow>
          (\<lparr>the_handler = fst r, pending = take i (pending S) @ drop (Suc i) (pending S)\<rparr>,
           Some out))"

fun step :: "host \<Rightarrow> (nat \<Rightarrow> int) \<Rightarrow> sys \<Rightarrow> action \<Rightarrow> sys \<times> outcome option" where
  "step H clock S (Call dataUrl useCache) =
     (case loadData_call (the_handler S) dataUrl useCache of
        (h, Suspended t) \<Rightarrow> (\<lparr>the_handler = h, pending = pending S @ [t]\<rparr>, None)
      | (h, out) \<Rightarrow> (\<lparr>the_handler = h, pending = pending S\<rparr>, Some out))"
| "step H clock S (FetchSettles i r) =
     (if i < length (pending S) then
        (case pending S ! i of
           AwaitFetch dataUrl useCache \<Rightarrow>
             settle S i (loadData_fetched (the_handler S) dataUrl useCache r)
         | AwaitJson dataUrl useCache \<Rightarrow> (S, None))
      else (S, None))"
| "step H clock S (DecodeSettles i body) =
     (if i < length (pending S) then
        (case pending S ! i of
           AwaitJson dataUrl useCache \<Rightarrow>
             settle S i (loadData_decoded H clock (the_handler S) dataUrl useCache body)
         | AwaitFetch dataUrl useCache \<Rightarrow> (S, None))
      else (S, None))"

fun run :: "host \<Rightarrow> (nat \<Rightarrow> int) \<Rightarrow> sys \<Rightarrow> action list \<Rightarrow> sys \<times> outcome option list" where
  "run H clock S [] = (S, [])"
| "run H clock S (a # as) =
     (let (S1, out) = step H clock S a; (S2, outs) = run H clock S1 as in (S2, out # outs))"

text \<open>A handler as its constructor leaves it.\<close>

definition new_handler :: handler where
  "new_handler =
     \<lparr>varrays = [], parrays = [], rawData = None, processedData = None, dataCache = [],
      isLoading = False, events = []\<rparr>"

section \<open>Analytics\<close>

text \<open>
  The analytic functions only read their arrays, so they are given the contents.
  \<open>data || this.processedData\<close>: an array, even an empty one, is truthy; \<open>None\<close>
  stands for \<open>null\<close>.
\<close>

definition sourceOf :: "'a list option \<Rightarrow> 'a list option \<Rightarrow> 'a list option" where
  "sourceOf data processed = (case data of Some d \<Rightarrow> Some d | None \<Rightarrow> processed)"

subsection \<open>DataHandler.filterData\<close>

text \<open>
  The filter object. A date bound is any value (\<open>JUndefined\<close> when absent); a price
  bound is a number and a name is a string, \<open>None\<close> when absent.
\<close>

record filters =
  startDate :: jsval
  endDate :: jsval
  minPrice :: "num option"
  maxPrice :: "num option"
  userName :: "string option"
  powerCompany :: "string option"

fun includes_str :: "string \<Rightarrow> string \<Rightarrow> bool" where
  "includes_str [] p = (p = [])"
| "includes_str (c # cs) p = (starts_with (c # cs) p \<or> includes_str cs p)"

definition keep :: "host \<Rightarrow> filters \<Rightarrow> 'r vrec_scheme \<Rightarrow> bool" where
  "keep H f item =
     (if truthy (startDate f) \<and> date_lt (dateTime H (bid_date item)) (dateTime H (startDate f))
      then False
      else if truthy (endDate f) \<and> date_gt (dateTime H (bid_date item)) (dateTime H (endDate f))
      then False
      else if (case minPrice f of None \<Rightarrow> False
               | Some m \<Rightarrow> num_truthy m \<and> num_lt (Fin (bid_price item)) m)
      then False
      else if (case maxPrice f of None \<Rightarrow> False
               | Some m \<Rightarrow> num_truthy m \<and> num_gt (Fin (bid_price item)) m)
      then False
      else if (case userName f of None \<Rightarrow> False
               | Some u \<Rightarrow> u \<noteq> [] \<and> \<not> includes_str (user_name item) u)
      then False
      else if (case powerCompany f of None \<Rightarrow> False
               | Some c \<Rightarrow> c \<noteq> [] \<and> \<not> includes_str (power_company item) c)
      then False
      else True)"

definition filterData ::
  "host \<Rightarrow> 'r vrec_scheme list option \<Rightarrow> filters \<Rightarrow> 'r vrec_scheme list option
     \<Rightarrow> 'r vrec_scheme list" where
  "filterData H processed f data =
     (case sourceOf data processed of
        None \<Rightarrow> []
      | Some sourceData \<Rightarrow>
          if length sourceData = 0 then [] else filter (keep H f) sourceData)"

subsection \<open>DataHandler.getDataStatistics and DataHandler.calculateMedian\<close>

text \<open>
  \<open>calculateMedian(numbers)\<close>. On an empty array both reads are out of range and give
  \<open>undefined\<close>, whose sum is NaN.
\<close>

definition calculateMedian :: "real list \<Rightarrow> num" where
  "calculateMedian numbers =
     (let sorted = js_sort (\<lambda>a b. Fin (a - b)) numbers;
          middle = length sorted div 2
      in if length sorted mod 2 = 0
         then (if middle = 0 then NaN
               else js_div (js_add (Fin (sorted ! (middle - 1))) (Fin (sorted ! middle))) (Fin 2))
         else Fin (sorted ! middle))"

record statistics =
  totalRecords :: nat
  price_min :: real
  price_max :: real
  price_average :: num
  price_median :: num
  earliest :: "int option"
  latest :: "int option"
  uniqueUsers :: nat
  uniqueCompanies :: nat

text \<open>\<open>new Date(Math.min(...dates))\<close>: an invalid date as soon as one date is.\<close>

definition dates_bound :: "(int set \<Rightarrow> int) \<Rightarrow> int option list \<Rightarrow> int option" where
  "dates_bound bound dates =
     (if None \<in> set dates then None else Some (bound (set (map the dates))))"

definition getDataStatistics ::
  "host \<Rightarrow> 'r vrec_scheme list option \<Rightarrow> 'r vrec_scheme list option \<Rightarrow> statistics option" where
  "getDataStatistics H processed data =
     (case sourceOf data processed of
        None \<Rightarrow> None
      | Some sourceData \<Rightarrow>
          if length sourceData = 0 then None
          else
            let prices = map bid_price sourceData;
                dates = map (\<lambda>item. dateTime H (bid_date item)) sourceData
            in Some
              \<lparr>totalRecords = length sourceData,
               price_min = Min (set prices),
               price_max = Max (set prices),
               price_average =
                 js_div (foldl (\<lambda>sum price. js_add sum (Fin price)) (Fin 0) prices)
                        (Fin (real (length prices))),
               price_median = calculateMedian prices,
               earliest = dates_bound Min dates,
               latest = dates_bound Max dates,
               uniqueUsers = card (set (map user_name sourceData)),
               uniqueCompanies = card (set (map power_company sourceData))\<rparr>)"

text \<open>
  The median in the words of the specification: sort the prices ascending; for an even
  count, the average of the two central values; for an odd count, the central value. The
  average is taken with the operators of the program. The mean is the sum of the prices,
  accumulated from the left with the operator of the program, divided by their count.
\<close>

definition spec_median :: "real list \<Rightarrow> num" where
  "spec_median prices =
     (let ascending = sort prices; n = length prices
      in if even n
         then js_div (js_add (Fin (ascending ! (n div 2 - 1))) (Fin (ascending ! (n div 2)))) (Fin 2)
         else Fin (ascending ! ((n - 1) div 2)))"

fun running_sum :: "num \<Rightarrow> real list \<Rightarrow> num" where
  "running_sum acc [] = acc"
| "running_sum acc (p # ps) = running_sum (js_add acc (Fin p)) ps"

definition spec_mean :: "real list \<Rightarrow> num" where
  "spec_mean prices = js_div (running_sum (Fin 0) prices) (Fin (real (length prices)))"

subsection \<open>PowerTradeChart.calculateLinearTrendLine\<close>

text \<open>
  The two lists of the returned trace (its other properties are constants of the
  presentation). On an empty array \<open>data[0].bid_date\<close> reads a property of
  \<open>undefined\<close>, which throws.
\<close>

record trace =
  trace_x :: "jsval list"
  trace_y :: "num list"

definition calculateLinearTrendLine :: "'r vrec_scheme list \<Rightarrow> error + trace" where
  "calculateLinearTrendLine data =
     (let n = length data;
          xValues = map real [0..<n];
          yValues = map bid_price data;
          sumX = foldl (\<lambda>a b. a + b) 0 xValues;
          sumY = foldl (\<lambda>a b. a + b) 0 yValues;
          sumXY = foldl (\<lambda>sum p. sum + snd p * yValues ! fst p) 0 (enumerate 0 xValues);
          sumXX = foldl (\<lambda>sum x. sum + x * x) 0 xValues;
          slope = num_div (Fin (real n * sumXY - sumX * sumY)) (Fin (real n * sumXX - sumX * sumX));
          intercept = num_div (num_sub (Fin sumY) (num_mul slope (Fin sumX))) (Fin (real n));
          startY = num_add (num_mul slope (Fin 0)) intercept;
          endY = num_add (num_mul slope (Fin (real n - 1))) intercept
      in if n = 0 then Inl TypeError
         else Inr \<lparr>trace_x = [bid_date (data ! 0), bid_date (data ! (n - 1))],
                   trace_y = [startY, endY]\<rparr>)"



subsection \<open>PowerTradeChart.generateTimeBasedColors\<close>

definition generateTimeBasedColors :: "'a list \<Rightarrow> num list" where
  "generateTimeBasedColors sortedData =
     (let dataLength = length sortedData
      in map (\<lambda>i. num_div (Fin (real i)) (Fin (real dataLength - 1))) [0..<dataLength])"

section \<open>Export (DataHandler.exportData)\<close>

text \<open>The own properties of a processed record, in the order they were created.\<close>

definition props :: "prec \<Rightarrow> (string \<times> prop_val) list" where
  "props r =
     [(''user_name'', Val (JStr (user_name r))),
      (''power_company'', Val (JStr (power_company r))),
      (''bid_date'', Val (bid_date r)),
      (''bid_date_parsed'', DateObj (bid_date_parsed r)),
      (''bid_price'', Val (JNum (Fin (bid_price r)))),
      (''id'', Val (JNum (Fin (real (rec_id r))))),
      (''bid_date_formatted'', Val (JStr (bid_date_formatted r))),
      (''bid_price_formatted'', Val (JStr (bid_price_formatted r))),
      (''quarter'', Val (JStr (quarter r))),
      (''month'', Val (JNum (month r))),
      (''year'', Val (JNum (year r)))]"

fun join :: "string \<Rightarrow> string list \<Rightarrow> string" where
  "join sep [] = []"
| "join sep [x] = x"
| "join sep (x # y # ys) = x @ sep @ join sep (y # ys)"

text \<open>
  One cell of a row: a string holding a comma is put between double quotes; any other
  value is converted to a string by \<open>join\<close> (\<open>undefined\<close> to the empty string).
\<close>

definition csvCell :: "host \<Rightarrow> prop_val option \<Rightarrow> string" where
  "csvCell H v =
     (case v of
        None \<Rightarrow> []
      | Some (Val (JStr str)) \<Rightarrow>
          if CHR '','' \<in> set str then [CHR 0x22] @ str @ [CHR 0x22] else str
      | Some (Val JUndefined) \<Rightarrow> []
      | Some (Val JNull) \<Rightarrow> []
      | Some (Val (JNum x)) \<Rightarrow> showNum H x
      | Some (Val other) \<Rightarrow> showVal H other
      | Some (DateObj t) \<Rightarrow> showDate H t)"

definition convertToCSV :: "host \<Rightarrow> prec list \<Rightarrow> string" where
  "convertToCSV H data =
     (if length data = 0 then []
      else
        let headers = map fst (props (data ! 0));
            csvHeaders = join '','' headers;
            csvRows = map (\<lambda>row. join '','' (map (\<lambda>header. csvCell H (map_of (props row) header)) headers)) data
        in join [CHR 0x0A] (csvHeaders # csvRows))"

text \<open>
  \<open>toLowerCase\<close> on the letters A to Z. The bytes of a character outside ASCII are
  left as they are: the program lowers such a character to a character outside ASCII as
  well, except U+212A, which it lowers to \<open>k\<close>; neither \<open>json\<close> nor
  \<open>csv\<close> holds a \<open>k\<close>, so the comparisons of \<open>exportData\<close> are the
  program's.
\<close>

definition lower_char :: "char \<Rightarrow> char" where
  "lower_char c =
     (if 65 \<le> (of_char c :: nat) \<and> (of_char c :: nat) \<le> 90 then char_of (of_char c + 32 :: nat)
      else c)"

definition toLowerCase :: "string \<Rightarrow> string" where
  "toLowerCase str = map lower_char str"

text \<open>
  \<open>exportData(format, data)\<close>. \<open>format\<close> is any value: \<open>undefined\<close> takes the
  default \<open>'json'\<close>, and a value that is not a string has no \<open>toLowerCase\<close> method,
  so that calling it throws.
\<close>

definition exportData :: "host \<Rightarrow> prec list option \<Rightarrow> jsval \<Rightarrow> prec list option \<Rightarrow> error + string" where
  "exportData H processed format data =
     (case sourceOf data processed of
        None \<Rightarrow> Inl NoExportDataError
      | Some sourceData \<Rightarrow>
          if length sourceData = 0 then Inl NoExportDataError
          else
            (case (case format of JUndefined \<Rightarrow> JStr ''json'' | v \<Rightarrow> v) of
               JStr fmt \<Rightarrow>
                 if toLowerCase fmt = ''json'' then Inr (stringify H (map props sourceData))
                 else if toLowerCase fmt = ''csv'' then Inr (convertToCSV H sourceData)
                 else Inl (UnsupportedFormatError fmt)
             | _ \<Rightarrow> Inl TypeError))"

section \<open>Notions used to state the properties\<close>

text \<open>
  The result of validating each element of an array, with its 1-based position; the
  records accepted, and the rejections with their errors, both in the order of the array.
\<close>

definition outcomes :: "host \<Rightarrow> (nat \<Rightarrow> int) \<Rightarrow> nat \<Rightarrow> jsval list \<Rightarrow> (nat \<times> (error + vrec)) list" where
  "outcomes H clock i xs =
     map (\<lambda>p. (fst p + 1, validateRecord H (clock (fst p)) (snd p))) (enumerate i xs)"

definition accepted_of :: "(nat \<times> (error + vrec)) list \<Rightarrow> vrec list" where
  "accepted_of rs = map (\<lambda>r. projr (snd r)) (filter (\<lambda>r. \<not> isl (snd r)) rs)"

definition rejected_of :: "(nat \<times> (error + vrec)) list \<Rightarrow> (nat \<times> error) list" where
  "rejected_of rs = map (\<lambda>r. (fst r, projl (snd r))) (filter (\<lambda>r. isl (snd r)) rs)"

text \<open>The filter object with nothing supplied, and: every supplied value is falsy.\<close>

definition no_filters :: filters where
  "no_filters =
     \<lparr>startDate = JUndefined, endDate = JUndefined, minPrice = None, maxPrice = None,
      userName = None, powerCompany = None\<rparr>"

definition all_falsy :: "filters \<Rightarrow> bool" where
  "all_falsy f =
     (\<not> truthy (startDate f) \<and> \<not> truthy (endDate f) \<and>
      (case minPrice f of None \<Rightarrow> True | Some m \<Rightarrow> \<not> num_truthy m) \<and>
      (case maxPrice f of None \<Rightarrow> True | Some m \<Rightarrow> \<not> num_truthy m) \<and>
      (case userName f of None \<Rightarrow> True | Some u \<Rightarrow> u = []) \<and>
      (case powerCompany f of None \<Rightarrow> True | Some c \<Rightarrow> c = []))"

section \<open>Example inputs\<close>

text \<open>
  A runtime for the examples: \<open>parseFloat\<close> of a number is that number; a date is
  given by a number (its time value) or by one of four ISO strings; the formatting
  functions are not used by the examples.
\<close>

definition sample_host :: host where
  "sample_host =
     \<lparr>parseFloat = (\<lambda>v. case v of JNum n \<Rightarrow> n | _ \<Rightarrow> NaN),
      dateTime = (\<lambda>v. case v of
                      JNum (Fin x) \<Rightarrow> Some \<lfloor>x\<rfloor>
                    | JStr s \<Rightarrow> map_of [(''2023-01-01'', 1672531200000),
                                        (''2023-03-01'', 1677628800000),
                                        (''2023-06-01'', 1685577600000),
                                        (''2019-12-31'', 1577750400000)] s
                    | _ \<Rightarrow> None),
      date_getMonth = (\<lambda>v. NaN),
      date_getFullYear = (\<lambda>v. NaN),
      toLocaleDateString = (\<lambda>v. []),
      toFixed3 = (\<lambda>x. []),
      showNum = (\<lambda>n. []),
      showDate = (\<lambda>t. []),
      showVal = (\<lambda>v. []),
      stringify = (\<lambda>rows. ''[]'')\<rparr>"

definition sample_now :: int where
  "sample_now = 1790000000000"

definition raw_record :: "string \<Rightarrow> real \<Rightarrow> jsval" where
  "raw_record d price =
     JObj [(''user_name'', JStr ''Li ''), (''power_company'', JStr ''Grid''),
           (''bid_date'', JStr d), (''bid_price'', JNum (Fin price))]"

definition good :: jsval where
  "good = raw_record ''2023-01-01'' 0.5"

definition ten_with_2_bad :: "jsval list" where
  "ten_with_2_bad =
     [good, JNull, good, good, good, raw_record ''2023-01-01'' 3, good, good, good, good]"

definition ten_with_3_bad :: "jsval list" where
  "ten_with_3_bad =
     [good, JNull, good, good, good, raw_record ''2023-01-01'' 3, good, good, good, JStr ''x'']"

definition priced :: "string \<Rightarrow> real \<Rightarrow> vrec" where
  "priced d p =
     \<lparr>user_name = ''Li'', power_company = ''Grid'', bid_date = JStr d,
      bid_date_parsed = 0, bid_price = p\<rparr>"

text \<open>
  The prices 0.40, 0.50, 0.45, 0.60 as the program holds them: a number of the input
  denotes the double nearest to it.
\<close>

definition example_prices :: "real list" where
  "example_prices = [fl 0.40, fl 0.50, fl 0.45, fl 0.60]"

text \<open>A store whose only array holds two records, the later one first.\<close>

definition caller_store :: store where
  "caller_store =
     \<lparr>varrays = [[priced ''2023-06-01'' 0.5, priced ''2023-01-01'' 0.4]], parrays = []\<rparr>"

text \<open>
  A new handler; and the state reached when \<open>a.json\<close> has been loaded into the cache
  and a load of \<open>b.json\<close> has been started and is waiting for \<open>fetch\<close>.
\<close>

definition sample_clock :: "nat \<Rightarrow> int" where
  "sample_clock i = sample_now"

definition fresh_sys :: sys where
  "fresh_sys = \<lparr>the_handler = new_handler, pending = []\<rparr>"

definition load_b_in_flight :: sys where
  "load_b_in_flight =
     fst (run sample_host sample_clock fresh_sys
            [Call ''a.json'' True, FetchSettles 0 (Response True 200),
             DecodeSettles 0 (Some (JArr [good])), Call ''b.json'' True])"

lemmas sample_simps =
  sample_host_def sample_now_def raw_record_def checked_def validateString_def
  validateDate_def validateNumber_def validateRecord_def trim_def ws_codes_def code_at_def minDate_def

section \<open>Record validation: properties\<close>

text \<open>
  White space outside ASCII: a name that holds only the ideographic space U+3000 is empty
  after trimming and is rejected; a name is stored without the no-break space U+00A0
  that follows it, and cleaning turns an inner U+3000 into one space.
\<close>

lemma unicode_white_space:
  "validateString ''user_name'' (JStr [CHR 0xE3, CHR 0x80, CHR 0x80]) =
     Inl (InvalidStringError ''user_name'')"
  "validateString ''user_name'' (JStr (''Li'' @ [CHR 0xC2, CHR 0xA0])) = Inr ''Li''"
  "cleanString (''Li'' @ [CHR 0xE3, CHR 0x80, CHR 0x80, CHR 0x20] @ ''Wei'') = ''Li Wei''"
  by (simp_all add: validateString_def cleanString_def trim_def ws_codes_def code_at_def)

lemma js_in_object: "js_in field raw \<Longrightarrow> truthy raw \<and> typeof_object raw"
  by (cases raw) simp_all

text \<open>
  Claim C1. A validated record has its price in \<open>[0.1, 2.0]\<close>; and for every raw
  record that reaches the price check (its three earlier fields pass) and whose
  \<open>bid_price\<close> parses to the finite number \<open>p\<close>, validation accepts exactly when
  \<open>0.1 \<le> p \<le> 2.0\<close>, and otherwise fails with the out-of-range error of
  the price.
\<close>

theorem bid_price_range:
  "(validateRecord H now raw = Inr v \<longrightarrow> 0.1 \<le> bid_price v \<and> bid_price v \<le> 2.0) \<and>
   (checked ''user_name'' raw validateString = Inr un \<and>
    checked ''power_company'' raw validateString = Inr pc \<and>
    checked ''bid_date'' raw (validateDate H now) = Inr t \<and>
    js_in ''bid_price'' raw \<and>
    parseFloat H (js_get ''bid_price'' raw) = Fin p \<longrightarrow>
    validateRecord H now raw =
      (if 0.1 \<le> p \<and> p \<le> 2.0
       then Inr \<lparr>user_name = un, power_company = pc, bid_date = js_get ''bid_date'' raw,
                 bid_date_parsed = t, bid_price = p\<rparr>
       else Inl (PriceOutOfRangeError p)))"
proof -
  have range: "0.1 \<le> bid_price v \<and> bid_price v \<le> 2.0" if "validateRecord H now raw = Inr v"
    using that
    by (auto simp: validateRecord_def checked_def validateNumber_def
             split: if_splits sum.splits num.splits)
  have exact: "validateRecord H now raw =
      (if 0.1 \<le> p \<and> p \<le> 2.0
       then Inr \<lparr>user_name = un, power_company = pc, bid_date = js_get ''bid_date'' raw,
                 bid_date_parsed = t, bid_price = p\<rparr>
       else Inl (PriceOutOfRangeError p))"
    if a: "checked ''user_name'' raw validateString = Inr un \<and>
      checked ''power_company'' raw validateString = Inr pc \<and>
      checked ''bid_date'' raw (validateDate H now) = Inr t \<and>
      js_in ''bid_price'' raw \<and>
      parseFloat H (js_get ''bid_price'' raw) = Fin p"
  proof -
    from a have "truthy raw \<and> typeof_object raw"
      using js_in_object [of "''bid_price''" raw] by blast
    moreover have "checked ''bid_price'' raw (validateNumber H) =
        (if 0.1 \<le> p \<and> p \<le> 2.0 then Inr p else Inl (PriceOutOfRangeError p))"
      using a by (auto simp: checked_def validateNumber_def)
    ultimately show ?thesis
      using a by (simp add: validateRecord_def)
  qed
  from range exact show ?thesis by blast
qed

text \<open>The boundary values of the specification: 0.1 and 2.0 pass, 0.0999 and 2.001 do not.\<close>

theorem bid_price_range_witness:
  "validateRecord sample_host sample_now (raw_record ''2023-01-01'' 0.1) =
     Inr \<lparr>user_name = ''Li'', power_company = ''Grid'', bid_date = JStr ''2023-01-01'',
          bid_date_parsed = 1672531200000, bid_price = 0.1\<rparr> \<and>
   validateRecord sample_host sample_now (raw_record ''2023-01-01'' 2.0) =
     Inr \<lparr>user_name = ''Li'', power_company = ''Grid'', bid_date = JStr ''2023-01-01'',
          bid_date_parsed = 1672531200000, bid_price = 2.0\<rparr> \<and>
   validateRecord sample_host sample_now (raw_record ''2023-01-01'' 0.0999) =
     Inl (PriceOutOfRangeError 0.0999) \<and>
   validateRecord sample_host sample_now (raw_record ''2023-01-01'' 2.001) =
     Inl (PriceOutOfRangeError 2.001)"
  using bid_price_range [of sample_host sample_now "raw_record ''2023-01-01'' 0.1" "priced [] 0"
          "''Li''" "''Grid''" 1672531200000 "0.1"]
        bid_price_range [of sample_host sample_now "raw_record ''2023-01-01'' 2.0" "priced [] 0"
          "''Li''" "''Grid''" 1672531200000 "2.0"]
        bid_price_range [of sample_host sample_now "raw_record ''2023-01-01'' 0.0999" "priced [] 0"
          "''Li''" "''Grid''" 1672531200000 "0.0999"]
        bid_price_range [of sample_host sample_now "raw_record ''2023-01-01'' 2.001" "priced [] 0"
          "''Li''" "''Grid''" 1672531200000 "2.001"]
  by (simp add: sample_simps)

text \<open>
  Claim C10. A raw element that is \<open>undefined\<close>, \<open>null\<close>, a boolean, a number or a
  string (anything that is not an object or an array) is rejected with the generic
  invalid-record error: the first check of the function, before the loop over the fields.
\<close>

theorem non_object_rejected:
  "raw \<in> {JUndefined, JNull} \<union> range JBool \<union> range JNum \<union> range JStr \<Longrightarrow>
     validateRecord H now raw = Inl InvalidRecordError"
  by (auto simp: validateRecord_def)

theorem non_object_rejected_witness:
  "validateRecord sample_host sample_now (JStr ''abc'') = Inl InvalidRecordError \<and>
   validateRecord sample_host sample_now JNull = Inl InvalidRecordError \<and>
   validateRecord sample_host sample_now (JNum (Fin 7)) = Inl InvalidRecordError \<and>
   validateRecord sample_host sample_now (JBool True) = Inl InvalidRecordError"
  using non_object_rejected [of "JStr ''abc''" sample_host sample_now]
        non_object_rejected [of JNull sample_host sample_now]
        non_object_rejected [of "JNum (Fin 7)" sample_host sample_now]
        non_object_rejected [of "JBool True" sample_host sample_now]
  by simp

section \<open>Dataset validation: properties\<close>

lemma resolve_truthy: "resolve j = Some arr \<Longrightarrow> truthy j"
  by (cases j) (auto simp: resolve_def)

lemma foldl_validateStep:
  "foldl (validateStep H clock) acc (enumerate i xs) =
     (fst acc @ accepted_of (outcomes H clock i xs), snd acc @ rejected_of (outcomes H clock i xs))"
proof (induction xs arbitrary: acc i)
  case Nil
  then show ?case by (simp add: outcomes_def accepted_of_def rejected_of_def)
next
  case (Cons x xs)
  have "foldl (validateStep H clock) acc (enumerate i (x # xs)) =
        foldl (validateStep H clock) (validateStep H clock acc (i, x)) (enumerate (Suc i) xs)"
    by simp
  also have "\<dots> = (fst (validateStep H clock acc (i, x)) @ accepted_of (outcomes H clock (Suc i) xs),
                    snd (validateStep H clock acc (i, x)) @ rejected_of (outcomes H clock (Suc i) xs))"
    by (rule Cons.IH)
  also have "\<dots> = (fst acc @ accepted_of (outcomes H clock i (x # xs)),
                    snd acc @ rejected_of (outcomes H clock i (x # xs)))"
    by (cases "validateRecord H (clock i) x")
       (simp_all add: validateStep_def outcomes_def accepted_of_def rejected_of_def)
  finally show ?case .
qed

lemma validateEach_eq:
  "validateEach H clock xs =
     (accepted_of (outcomes H clock 0 xs), rejected_of (outcomes H clock 0 xs))"
  by (simp add: validateEach_def foldl_validateStep)

lemma split_count: "length (accepted_of rs) + length (rejected_of rs) = length rs"
  by (simp add: accepted_of_def rejected_of_def sum_length_filter_compl add.commute)

lemma length_outcomes: "length (outcomes H clock i xs) = length xs"
  by (simp add: outcomes_def)

lemma ratio_gt: "0 < n \<Longrightarrow> (real k / real n > 0.2) = (n < 5 * k)"
proof -
  assume "0 < n"
  then have "(real k / real n > 0.2) = (real n < real (5 * k))"
    by (simp add: field_simps)
  then show ?thesis
    by (simp only: of_nat_less_iff)
qed

text \<open>
  Claim C2. For a value that resolves to a non-empty array, validation fails with the
  data-quality error exactly when the fraction of rejected records is greater than 0.2;
  otherwise it returns the accepted records, in order, the rejected ones being dropped.
  The rejections are written as a warning whenever there is at least one (also
  before the data-quality error is thrown); with no rejection there is nothing to warn of.
\<close>

theorem quality_gate:
  assumes "resolve jsonData = Some dataArray" and "dataArray \<noteq> []"
  shows "validateDataStructure H clock jsonData =
     (let rs = outcomes H clock 0 dataArray;
          errors = rejected_of rs
      in if real (length errors) / real (length dataArray) > 0.2
         then ([errors], Inl (DataQualityError (length errors) (length dataArray)))
         else (if errors = [] then [] else [errors], Inr (accepted_of rs)))"
proof -
  let ?rs = "outcomes H clock 0 dataArray"
  let ?k = "length (rejected_of ?rs)"
  let ?n = "length dataArray"
  have n: "0 < ?n" using assms(2) by simp
  have t: "truthy jsonData" using assms(1) by (rule resolve_truthy)
  have total: "length (accepted_of ?rs) + ?k = ?n"
    by (simp add: split_count length_outcomes)
  show ?thesis
  proof (cases "real ?k / real ?n > 0.2")
    case True
    then have "?n < 5 * ?k" using ratio_gt [OF n, of ?k] by blast
    then have "rejected_of ?rs \<noteq> []" by auto
    with True t assms show ?thesis
      by (simp add: validateDataStructure_def validateEach_eq Let_def)
  next
    case False
    then have "\<not> ?n < 5 * ?k" using ratio_gt [OF n, of ?k] by blast
    with total n have "length (accepted_of ?rs) \<noteq> 0" by arith
    with False t assms show ?thesis
      by (simp add: validateDataStructure_def validateEach_eq Let_def)
  qed
qed

lemma good_ok:
  "validateRecord sample_host sample_now good =
     Inr \<lparr>user_name = ''Li'', power_company = ''Grid'', bid_date = JStr ''2023-01-01'',
          bid_date_parsed = 1672531200000, bid_price = 0.5\<rparr>"
  by (simp add: good_def sample_simps)

lemma bad_ones:
  "validateRecord sample_host sample_now JNull = Inl InvalidRecordError"
  "validateRecord sample_host sample_now (JStr ''x'') = Inl InvalidRecordError"
  "validateRecord sample_host sample_now (raw_record ''2023-01-01'' 3) = Inl (PriceOutOfRangeError 3)"
  by (simp_all add: sample_simps)

text \<open>Ten records of which three are malformed fail; with two malformed, eight are returned.\<close>

theorem quality_gate_witness:
  "snd (validateDataStructure sample_host (\<lambda>i. sample_now) (JArr ten_with_3_bad)) =
     Inl (DataQualityError 3 10) \<and>
   (\<exists>vs. validateDataStructure sample_host (\<lambda>i. sample_now) (JObj [(''data'', JArr ten_with_2_bad)]) =
      ([[(2, InvalidRecordError), (6, PriceOutOfRangeError 3)]], Inr vs) \<and> length vs = 8)"
  using quality_gate [of "JArr ten_with_3_bad" ten_with_3_bad sample_host "\<lambda>i. sample_now"]
        quality_gate [of "JObj [(''data'', JArr ten_with_2_bad)]" ten_with_2_bad sample_host
          "\<lambda>i. sample_now"]
  by (simp add: resolve_def ten_with_2_bad_def ten_with_3_bad_def outcomes_def accepted_of_def
        rejected_of_def good_ok bad_ones Let_def)

section \<open>Summary statistics: properties\<close>

lemma js_insert_real: "js_insert (\<lambda>a b. Fin (a - b)) (x::real) xs = insort x xs"
  by (induction xs) simp_all

lemma js_sort_real: "js_sort (\<lambda>a b. Fin (a - b)) (xs::real list) = sort xs"
  by (induction xs) (simp_all add: js_insert_real)

lemma calculateMedian_spec:
  assumes "prices \<noteq> []"
  shows "calculateMedian prices = spec_median prices"
proof (cases "even (length prices)")
  case True
  with assms have "length prices div 2 \<noteq> 0" and "length prices mod 2 = 0"
    by (cases prices; auto)+
  with True show ?thesis
    by (simp add: calculateMedian_def spec_median_def js_sort_real Let_def)
next
  case False
  then have "(length prices - 1) div 2 = length prices div 2" and "length prices mod 2 \<noteq> 0"
    by (auto elim!: oddE)
  with False assms show ?thesis
    by (simp add: calculateMedian_def spec_median_def js_sort_real Let_def)
qed


lemma foldl_running_sum:
  "foldl (\<lambda>sum price. js_add sum (Fin price)) acc prices = running_sum acc prices"
  by (induction prices arbitrary: acc) simp_all

text \<open>The doubles of the example, and its running sums.\<close>

lemmas fl_eval = fl_def expo.simps pow2_def ties_even_def Let_def

lemma example_prices_values:
  "example_prices =
     [3602879701896397 / 9007199254740992, 1 / 2, 8106479329266893 / 18014398509481984,
      5404319552844595 / 9007199254740992]"
  by (simp add: example_prices_def fl_eval)

lemma example_doubles:
  "fl 0.475 = 4278419646001971 / 9007199254740992"
  "fl 0.4875 = 8782019273372467 / 18014398509481984"
  by (simp_all add: fl_eval)

lemma example_sums:
  "js_add (Fin 0) (Fin (3602879701896397 / 9007199254740992)) =
     Fin (3602879701896397 / 9007199254740992)"
  "js_add (Fin (3602879701896397 / 9007199254740992)) (Fin (1 / 2)) =
     Fin (8106479329266893 / 9007199254740992)"
  "js_add (Fin (8106479329266893 / 9007199254740992)) (Fin (8106479329266893 / 18014398509481984)) =
     Fin (3039929748475085 / 2251799813685248)"
  "js_add (Fin (3039929748475085 / 2251799813685248)) (Fin (5404319552844595 / 9007199254740992)) =
     Fin (2195504818343117 / 1125899906842624)"
  "js_div (Fin (2195504818343117 / 1125899906842624)) (Fin 4) =
     Fin (2195504818343117 / 4503599627370496)"
  "js_add (Fin (8106479329266893 / 18014398509481984)) (Fin (1 / 2)) =
     Fin (4278419646001971 / 4503599627370496)"
  "js_div (Fin (4278419646001971 / 4503599627370496)) (Fin 2) =
     Fin (4278419646001971 / 9007199254740992)"
  by (simp_all add: js_add_def js_div_def dbl_def fl_eval)

lemma example_statistics:
  "map_option price_median (getDataStatistics H None (Some (map (priced []) example_prices))) =
     Some (Fin (4278419646001971 / 9007199254740992))"
  "map_option price_average (getDataStatistics H None (Some (map (priced []) example_prices))) =
     Some (Fin (2195504818343117 / 4503599627370496))"
  "spec_median example_prices = Fin (4278419646001971 / 9007199254740992)"
  "spec_mean example_prices = Fin (2195504818343117 / 4503599627370496)"
  by (simp_all add: example_prices_values getDataStatistics_def sourceOf_def priced_def
        calculateMedian_def spec_median_def spec_mean_def example_sums Let_def)

text \<open>
  Claim C6, as stated, fails on the mean of its example: the program adds the four
  doubles from the left, each sum rounded, which gives 1.9500000000000002, and the mean
  it returns is 0.48750000000000004, the double next above the double 0.4875 (and so not
  the real number 0.4875 either).
\<close>

theorem example_mean_counterexample:
  "map_option price_average
     (getDataStatistics sample_host None (Some (map (priced []) example_prices))) =
     Some (Fin (fl 0.4875 + 1 / 2 ^ 54)) \<and>
   map_option price_average
     (getDataStatistics sample_host None (Some (map (priced []) example_prices))) \<noteq>
     Some (Fin (fl 0.4875)) \<and>
   map_option price_average
     (getDataStatistics sample_host None (Some (map (priced []) example_prices))) \<noteq>
     Some (Fin 0.4875)"
  by (simp only: example_statistics example_doubles) simp

text \<open>
  Claim C6, amended. For a non-empty dataset the statistics hold the median of the
  specification (the prices sorted ascending, a rearrangement of the prices; the central
  value for an odd count, the average of the two central values for an even count) and
  the mean accumulated from the left, both with the rounding of double arithmetic.
\<close>

theorem median_of_statistics:
  assumes "sourceOf data processed = Some sourceData" and "sourceData \<noteq> []"
  shows "map_option price_median (getDataStatistics H processed data) =
           Some (spec_median (map bid_price sourceData)) \<and>
         map_option price_average (getDataStatistics H processed data) =
           Some (spec_mean (map bid_price sourceData)) \<and>
         sorted (sort (map bid_price sourceData)) \<and>
         mset (sort (map bid_price sourceData)) = mset (map bid_price sourceData)"
  using assms
  by (simp add: getDataStatistics_def Let_def calculateMedian_spec foldl_running_sum
        spec_mean_def)

text \<open>
  The prices 0.40, 0.50, 0.45, 0.60 have the median 0.475 (the double written so) and
  the mean 0.48750000000000004; the prices 0.7, 0.3, 0.5 have the median 0.5.
\<close>

theorem median_of_statistics_witness:
  "map_option price_median
     (getDataStatistics sample_host None (Some (map (priced []) example_prices))) =
     Some (Fin (fl 0.475)) \<and>
   spec_median example_prices = Fin (fl 0.475) \<and>
   map_option price_average
     (getDataStatistics sample_host None (Some (map (priced []) example_prices))) =
     Some (Fin (fl 0.4875 + 1 / 2 ^ 54)) \<and>
   spec_mean example_prices = Fin (fl 0.4875 + 1 / 2 ^ 54) \<and>
   map_option price_median
     (getDataStatistics sample_host None (Some (map (priced []) [0.7, 0.3, 0.5]))) =
     Some (Fin 0.5)"
  using median_of_statistics [of "Some (map (priced []) example_prices)" None
          "map (priced []) example_prices" sample_host]
        median_of_statistics [of "Some (map (priced []) [0.7, 0.3, 0.5])" None
          "map (priced []) [0.7, 0.3, 0.5]" sample_host]
  by (simp only: example_statistics example_doubles)
     (simp add: sourceOf_def priced_def spec_median_def)

text \<open>
  The rounding of a price: the double 1.0005 lies below the real number 1.0005, but its
  product with 1000 rounds to 1000.5, so that the price becomes 1.001.
\<close>

lemma roundPrice_example: "roundPrice (fl 1.0005) = fl 1.001"
  by (simp add: roundPrice_def fl_eval)

section \<open>Trend line: properties\<close>











lemma single_point_trend:
  "calculateLinearTrendLine [r] = Inr \<lparr>trace_x = [bid_date r, bid_date r], trace_y = [NaN, NaN]\<rparr>"
  by (simp add: calculateLinearTrendLine_def inf_of_sign_def num_sub_def)

section \<open>Colour positions: properties\<close>

lemma colors_two_or_more:
  assumes "2 \<le> length xs"
  shows "generateTimeBasedColors xs =
           map (\<lambda>i. Fin (real i / (real (length xs) - 1))) [0..<length xs]"
proof -
  from assms have "real (length xs) - 1 \<noteq> 0" by simp
  then show ?thesis by (simp add: generateTimeBasedColors_def Let_def)
qed

text \<open>
  Claim C7. The claim holds from two records on (\<open>colors_two_or_more\<close>), but for a
  single record the function does perform the division \<open>0 / 0\<close>: the position of the
  single point is NaN, not a finite ordinal.
\<close>

theorem single_point_color: "generateTimeBasedColors [r] = [NaN]"
  by (simp add: generateTimeBasedColors_def inf_of_sign_def)

section \<open>Filtering: properties\<close>

lemma keep_falsy:
  "\<not> truthy d \<Longrightarrow> keep H (f\<lparr>startDate := d\<rparr>) = keep H (f\<lparr>startDate := JUndefined\<rparr>)"
  "\<not> truthy d \<Longrightarrow> keep H (f\<lparr>endDate := d\<rparr>) = keep H (f\<lparr>endDate := JUndefined\<rparr>)"
  "\<not> num_truthy m \<Longrightarrow> keep H (f\<lparr>minPrice := Some m\<rparr>) = keep H (f\<lparr>minPrice := None\<rparr>)"
  "\<not> num_truthy m \<Longrightarrow> keep H (f\<lparr>maxPrice := Some m\<rparr>) = keep H (f\<lparr>maxPrice := None\<rparr>)"
  "keep H (f\<lparr>userName := Some []\<rparr>) = keep H (f\<lparr>userName := None\<rparr>)"
  "keep H (f\<lparr>powerCompany := Some []\<rparr>) = keep H (f\<lparr>powerCompany := None\<rparr>)"
  by (auto simp: keep_def fun_eq_iff)

lemma keep_all_falsy: "all_falsy f \<Longrightarrow> keep H f item"
  by (auto simp: keep_def all_falsy_def split: option.splits)

lemma filter_all_falsy: "all_falsy f \<Longrightarrow> filterData H processed f (Some xs) = xs"
  by (cases xs) (simp_all add: filterData_def sourceOf_def keep_all_falsy)

lemma filterData_keep:
  fixes data :: "'r vrec_scheme list option"
  assumes "(keep H f :: 'r vrec_scheme \<Rightarrow> bool) = keep H g"
  shows "filterData H processed f data = filterData H processed g data"
  using assms
  by (cases "sourceOf data processed") (simp_all add: filterData_def)

text \<open>
  Claim C8. A falsy value in a field of the filter object (a falsy date bound such as
  the empty string, the price bound 0 or NaN, the empty string as a name) gives the same
  result as the field left out; a filter object all of whose supplied values are falsy
  returns every record, and so does a filter with only \<open>minPrice = 0\<close> or only
  \<open>maxPrice = 0\<close>, whatever the prices.
\<close>

theorem falsy_filter_values_ignored:
  "(\<not> truthy d \<longrightarrow>
      filterData H processed (f\<lparr>startDate := d\<rparr>) data =
        filterData H processed (f\<lparr>startDate := JUndefined\<rparr>) data \<and>
      filterData H processed (f\<lparr>endDate := d\<rparr>) data =
        filterData H processed (f\<lparr>endDate := JUndefined\<rparr>) data) \<and>
   (\<not> num_truthy m \<longrightarrow>
      filterData H processed (f\<lparr>minPrice := Some m\<rparr>) data =
        filterData H processed (f\<lparr>minPrice := None\<rparr>) data \<and>
      filterData H processed (f\<lparr>maxPrice := Some m\<rparr>) data =
        filterData H processed (f\<lparr>maxPrice := None\<rparr>) data) \<and>
   filterData H processed (f\<lparr>userName := Some []\<rparr>) data =
     filterData H processed (f\<lparr>userName := None\<rparr>) data \<and>
   filterData H processed (f\<lparr>powerCompany := Some []\<rparr>) data =
     filterData H processed (f\<lparr>powerCompany := None\<rparr>) data \<and>
   (all_falsy f \<longrightarrow> filterData H processed f (Some xs) = xs) \<and>
   filterData H processed (no_filters\<lparr>minPrice := Some (Fin 0)\<rparr>) (Some xs) = xs \<and>
   filterData H processed (no_filters\<lparr>maxPrice := Some (Fin 0)\<rparr>) (Some xs) = xs"
proof -
  have zero: "all_falsy (no_filters\<lparr>minPrice := Some (Fin 0)\<rparr>)"
    "all_falsy (no_filters\<lparr>maxPrice := Some (Fin 0)\<rparr>)"
    by (simp_all add: all_falsy_def no_filters_def)
  have dates: "filterData H processed (f\<lparr>startDate := d\<rparr>) data =
        filterData H processed (f\<lparr>startDate := JUndefined\<rparr>) data \<and>
      filterData H processed (f\<lparr>endDate := d\<rparr>) data =
        filterData H processed (f\<lparr>endDate := JUndefined\<rparr>) data"
    if "\<not> truthy d"
    using that by (intro conjI filterData_keep keep_falsy)
  have prices: "filterData H processed (f\<lparr>minPrice := Some m\<rparr>) data =
        filterData H processed (f\<lparr>minPrice := None\<rparr>) data \<and>
      filterData H processed (f\<lparr>maxPrice := Some m\<rparr>) data =
        filterData H processed (f\<lparr>maxPrice := None\<rparr>) data"
    if "\<not> num_truthy m"
    using that by (intro conjI filterData_keep keep_falsy)
  have names: "filterData H processed (f\<lparr>userName := Some []\<rparr>) data =
        filterData H processed (f\<lparr>userName := None\<rparr>) data"
    "filterData H processed (f\<lparr>powerCompany := Some []\<rparr>) data =
        filterData H processed (f\<lparr>powerCompany := None\<rparr>) data"
    by (intro filterData_keep keep_falsy)+
  from dates prices names zero show ?thesis
    by (simp add: filter_all_falsy)
qed

text \<open>
  With a maximum price of 0 a record priced 0.5 is kept, and with an empty start date a
  record dated before any bound is kept; a maximum price of 0.4 does remove the record.
\<close>

theorem falsy_filter_values_ignored_witness:
  "filterData sample_host None (no_filters\<lparr>maxPrice := Some (Fin 0)\<rparr>)
     (Some [priced ''2023-01-01'' 0.5]) = [priced ''2023-01-01'' 0.5] \<and>
   filterData sample_host None (no_filters\<lparr>startDate := JStr []\<rparr>)
     (Some [priced ''2023-01-01'' 0.5]) = [priced ''2023-01-01'' 0.5] \<and>
   filterData sample_host None (no_filters\<lparr>maxPrice := Some (Fin 0.4)\<rparr>)
     (Some [priced ''2023-01-01'' 0.5]) = []"
  using falsy_filter_values_ignored
          [of "JStr []" sample_host None no_filters "Some [priced ''2023-01-01'' 0.5]" "Fin 0"
              "[priced ''2023-01-01'' 0.5]"]
  by (simp add: no_filters_def filterData_def sourceOf_def keep_def num_gt_def priced_def
        sample_host_def date_lt_def date_gt_def time_num_def)

section \<open>Export: properties\<close>

text \<open>
  Claim C9. When the dataset to export (the argument, or the processed data of the
  handler when the argument is \<open>null\<close>) is \<open>null\<close> or empty, \<open>exportData\<close>
  fails with the no-data error whatever the format argument is: the check precedes the
  dispatch on the format.
\<close>

theorem export_empty_fails:
  "sourceOf data processed = None \<or> sourceOf data processed = Some [] \<Longrightarrow>
     exportData H processed format data = Inl NoExportDataError"
  by (auto simp: exportData_def)

text \<open>
  An unsupported format with no data gives the no-data error; with data it gives the
  unsupported-format error.
\<close>

theorem export_empty_fails_witness:
  "exportData sample_host None (JStr ''xml'') (Some []) = Inl NoExportDataError \<and>
   exportData sample_host None (JStr ''xml'') None = Inl NoExportDataError \<and>
   exportData sample_host None (JNum (Fin 3)) (Some []) = Inl NoExportDataError \<and>
   exportData sample_host None (JStr ''xml'')
     (Some [enrichItem sample_host 0 (priced ''2023-01-01'' 0.5)]) = Inl (UnsupportedFormatError ''xml'')"
  using export_empty_fails [of "Some []" None sample_host "JStr ''xml''"]
        export_empty_fails [of None None sample_host "JStr ''xml''"]
        export_empty_fails [of "Some []" None sample_host "JNum (Fin 3)"]
  by (simp add: sourceOf_def exportData_def toLowerCase_def lower_char_def)

section \<open>Processing pipeline: effect on the arrays\<close>

lemma sortByDate_frame:
  "snd (sortByDate H s data asc) = data"
  "parrays (fst (sortByDate H s data asc)) = parrays s"
  "length (varrays (fst (sortByDate H s data asc))) = length (varrays s)"
  "a \<noteq> data \<Longrightarrow> varrays (fst (sortByDate H s data asc)) ! a = varrays s ! a"
  "data < length (varrays s) \<Longrightarrow>
     varrays (fst (sortByDate H s data asc)) ! data = js_sort (byDate H asc) (varrays s ! data)"
  by (simp_all add: sortByDate_def)

lemma cleanData_frame:
  "snd (cleanData s data) = length (varrays s)"
  "parrays (fst (cleanData s data)) = parrays s"
  "a < length (varrays s) \<Longrightarrow> varrays (fst (cleanData s data)) ! a = varrays s ! a"
  "varrays (fst (cleanData s data)) ! length (varrays s) = map cleanItem (varrays s ! data)"
  by (simp_all add: cleanData_def allocV_def nth_append)

lemma enrichData_frame:
  "snd (enrichData H s data) = length (parrays s)"
  "varrays (fst (enrichData H s data)) = varrays s"
  "a < length (parrays s) \<Longrightarrow> parrays (fst (enrichData H s data)) ! a = parrays s ! a"
  by (simp_all add: enrichData_def allocP_def nth_append)

lemma processData_unfold:
  "processData H s data =
     enrichData H (fst (cleanData (fst (sortByDate H s data True)) data))
       (length (varrays s))"
  by (simp add: processData_def sortByDate_def cleanData_def allocV_def split_def Let_def)

text \<open>
  \<open>cleanData\<close> and \<open>enrichData\<close> leave every existing array as it is and return a
  new one, and so \<open>processData\<close> returns a new array; but the array passed in holds,
  afterwards, its records sorted by date.
\<close>

lemma processData_effect:
  assumes "data < length (varrays s)"
  shows "varrays (fst (processData H s data)) ! data = js_sort (byDate H True) (varrays s ! data)"
    and "snd (processData H s data) = length (parrays s)"
    and "a < length (varrays s) \<Longrightarrow> a \<noteq> data \<Longrightarrow>
           varrays (fst (processData H s data)) ! a = varrays s ! a"
    and "b < length (parrays s) \<Longrightarrow> parrays (fst (processData H s data)) ! b = parrays s ! b"
  using assms
  by (simp_all add: processData_unfold enrichData_frame cleanData_frame sortByDate_frame)

text \<open>
  Claim C4. The claim fails on the code: \<open>processData\<close> sorts the caller's array in
  place. Here the caller's array holds a record of June before a record of January; after
  the call the same array holds them in the other order.
\<close>

theorem processData_reorders_argument:
  "varrays caller_store ! 0 = [priced ''2023-06-01'' 0.5, priced ''2023-01-01'' 0.4] \<and>
   varrays (fst (processData sample_host caller_store 0)) ! 0 =
     [priced ''2023-01-01'' 0.4, priced ''2023-06-01'' 0.5]"
  by (simp add: processData_effect caller_store_def byDate_def sample_host_def priced_def
        date_sub_def num_sub_def time_num_def Let_def)

section \<open>Loading: properties\<close>

lemmas load_simps =
  fresh_sys_def new_handler_def sample_clock_def loadData_call_def loadData_fetched_def
  loadData_decoded_def settle_def caught_def run_finally_def validateDataStructure_def
  resolve_def validateEach_def validateStep_def allocV_def allocP_def processData_def
  sortByDate_def cleanData_def enrichData_def cache_set_def

lemma load_b_in_flight_state:
  "pending load_b_in_flight = [AwaitFetch ''b.json'' True]"
  "isLoading (the_handler load_b_in_flight)"
  "dataCache (the_handler load_b_in_flight) = [(''a.json'', 0)]"
  by (simp_all add: load_b_in_flight_def load_simps good_ok Let_def)

text \<open>
  The guard as the program means it: a call that misses the cache and finds the flag set
  throws the concurrent-load error and starts nothing.
\<close>

lemma guard_when_flag_set:
  assumes "isLoading (the_handler S)"
    and "useCache \<longrightarrow> map_of (dataCache (the_handler S)) dataUrl = None"
  shows "snd (step H clock S (Call dataUrl useCache)) = Some (Threw ConcurrentLoadError)"
    and "pending (fst (step H clock S (Call dataUrl useCache))) = pending S"
  using assms by (auto simp: loadData_call_def caught_def)

text \<open>
  Claim C5. The claim fails on the code. The guard throws inside the \<open>try\<close> block,
  so the \<open>finally\<close> block of the rejected call clears the flag that the first call
  has set, while the first call is still waiting for \<open>fetch\<close>. Of three calls made
  in a row on a new handler, the first is suspended, the second is rejected, and the
  third is admitted instead of failing with the concurrent-load error: two loads are
  then in progress.
\<close>

theorem rejected_call_clears_flag:
  "snd (run H clock fresh_sys [Call u False, Call u False, Call u False]) =
     [None, Some (Threw ConcurrentLoadError), None] \<and>
   pending (fst (run H clock fresh_sys [Call u False, Call u False, Call u False])) =
     [AwaitFetch u False, AwaitFetch u False]"
  by (simp add: load_simps Let_def)

text \<open>
  The return of a cached array runs the same \<open>finally\<close> block. While the load of
  \<open>b.json\<close> is waiting, a call for the cached \<open>a.json\<close> returns the cached array
  (the cache is consulted before the flag) and clears the flag; a call for \<open>c.json\<close>
  made after it is admitted as well.
\<close>

lemma cached_return_clears_flag:
  "snd (run sample_host sample_clock load_b_in_flight [Call ''a.json'' True, Call ''c.json'' True]) =
     [Some (Returned 0), None] \<and>
   pending (fst (run sample_host sample_clock load_b_in_flight
                   [Call ''a.json'' True, Call ''c.json'' True])) =
     [AwaitFetch ''b.json'' True, AwaitFetch ''c.json'' True]"
  by (simp add: load_b_in_flight_state loadData_call_def run_finally_def Let_def)

end
